theory Spec2Isabelle
  imports Complex_Main
begin

section \<open>JavaScript values\<close>

text \<open>
  Object literals of the source (response bodies, the status object, the permission
  result) are kept as they are written: an object is the list of its keys and values in
  source order. \<open>JUndefined\<close> is a key whose value is \<open>undefined\<close>.
  Strings are \<open>char list\<close>, one \<open>char\<close> per character of the 8-bit range.
\<close>

datatype json =
    JUndefined
  | JNull
  | JBool bool
  | JNum real
  | JStr string
  | JArr "json list"
  | JObj "(string \<times> json) list"

text \<open>Property access \<open>o.k\<close>: \<open>undefined\<close> when the key is absent.\<close>

fun field :: "string \<Rightarrow> json \<Rightarrow> json" where
  "field k (JObj kvs) = (case map_of kvs k of None \<Rightarrow> JUndefined | Some v \<Rightarrow> v)"
| "field k _ = JUndefined"

text \<open>
  A thrown value. Everything the configuration module and its middleware read from a
  caught error is its \<open>message\<close>.
\<close>

datatype js_error = Error (message: string)

text \<open>\<open>v || d\<close> on an environment variable: an unset or empty variable is falsy.\<close>

definition or_default :: "string option \<Rightarrow> string \<Rightarrow> string" where
  "or_default v d = (case v of None \<Rightarrow> d | Some x \<Rightarrow> if x = [] then d else x)"

text \<open>\<open>n || d\<close> on a parsed number: \<open>NaN\<close> (here \<open>None\<close>) and \<open>0\<close> are falsy.\<close>

definition num_or_default :: "'a::zero option \<Rightarrow> 'a \<Rightarrow> 'a" where
  "num_or_default v d = (case v of None \<Rightarrow> d | Some x \<Rightarrow> if x = 0 then d else x)"

text \<open>\<open>!v\<close> on a value that is a string or \<open>undefined\<close>.\<close>

definition falsy :: "string option \<Rightarrow> bool" where
  "falsy v = (case v of None \<Rightarrow> True | Some x \<Rightarrow> x = [])"

section \<open>The process and its surroundings\<close>

record process_env =
  GOOGLE_CLOUD_PROJECT_ID :: "string option"
  GOOGLE_CLOUD_LOCATION :: "string option"
  VERTEX_AI_MODEL :: "string option"
  VERTEX_AI_MAX_TOKENS :: "string option"
  VERTEX_AI_TEMPERATURE :: "string option"
  GOOGLE_APPLICATION_CREDENTIALS :: "string option"
  NODE_ENV :: "string option"

text \<open>The \<open>VertexAI\<close> client object built by \<open>new VertexAI({project, location})\<close>.\<close>

record client =
  project :: string
  clientLocation :: string

text \<open>
  The generative model handle returned by \<open>preview.getGenerativeModel\<close>: the client it
  came from, the model name and the \<open>generationConfig\<close>.
\<close>

record gen_model =
  ofClient :: client
  modelName :: string
  maxOutputTokens :: int
  genTemperature :: real

text \<open>
  What the code calls but does not define: the environment variables, the library
  functions \<open>parseInt\<close>, \<open>parseFloat\<close> (\<open>None\<close> is \<open>NaN\<close>), \<open>path.resolve\<close>,
  \<open>fs.existsSync\<close>, the remote service behind \<open>model.generateContent\<close> followed by
  \<open>response.text()\<close> (an error or the text), and the clock of
  \<open>new Date().toISOString()\<close>. One \<open>world\<close> stands for the surroundings during one
  call; a later call may be given another.
\<close>

record world =
  env :: process_env
  parseInt :: "string option \<Rightarrow> int option"
  parseFloat :: "string option \<Rightarrow> real option"
  path_resolve :: "string \<Rightarrow> string"
  fs_existsSync :: "string \<Rightarrow> bool"
  generateContent :: "gen_model \<Rightarrow> string \<Rightarrow> js_error + string"
  toISOString :: string

text \<open>
  The effects a call has outside the configuration object, in the order they happen.
  Console output is not recorded.
\<close>

datatype effect =
    ExistsSync string
  | NewVertexAI string string
  | GenerateContent string

section \<open>config/vertexai.js\<close>

record VertexAIConfig =
  projectId :: string
  location :: string
  model :: string
  maxTokens :: int
  temperature :: real
  vertexAI :: "client option"
  isInitialized :: bool
  initError :: "js_error option"

definition constructor :: "world \<Rightarrow> VertexAIConfig" where
  "constructor w =
     \<lparr> projectId = or_default (GOOGLE_CLOUD_PROJECT_ID (env w)) ''dark-pipe-465302-g3'',
       location = or_default (GOOGLE_CLOUD_LOCATION (env w)) ''us-central1'',
       model = or_default (VERTEX_AI_MODEL (env w)) ''gemini-pro'',
       maxTokens = num_or_default (parseInt w (VERTEX_AI_MAX_TOKENS (env w))) 1000,
       temperature = num_or_default (parseFloat w (VERTEX_AI_TEMPERATURE (env w))) (7 / 10),
       vertexAI = None,
       isInitialized = False,
       initError = None \<rparr>"

text \<open>
  \<open>getModel\<close> throws unless \<open>isInitialized\<close> is set. With the flag set and no client
  stored, \<open>this.vertexAI.preview\<close> is a property read on \<open>null\<close>, a \<open>TypeError\<close>.
\<close>

definition getModel :: "VertexAIConfig \<Rightarrow> js_error + gen_model" where
  \<open>getModel s =
     (if \<not> isInitialized s then
        Inl (Error ''Vertex AI not initialized. Call initialize() first.'')
      else case vertexAI s of
        None \<Rightarrow> Inl (Error ''Cannot read properties of null (reading 'preview')'')
      | Some c \<Rightarrow>
          Inr \<lparr> ofClient = c, modelName = model s,
                maxOutputTokens = maxTokens s, genTemperature = temperature s \<rparr>)\<close>

definition testPrompt :: string where
  \<open>testPrompt = ''Say "Hello from Vertex AI Gemini!" in one sentence.''\<close>

text \<open>
  \<open>testConnection\<close>: every failure inside its \<open>try\<close> is rethrown with the prefix
  \<open>Vertex AI connection test failed: \<close>.
\<close>

definition testConnection :: "world \<Rightarrow> VertexAIConfig \<Rightarrow> (js_error + string) \<times> effect list" where
  "testConnection w s =
     (case getModel s of
        Inl e \<Rightarrow> (Inl (Error (''Vertex AI connection test failed: '' @ message e)), [])
      | Inr m \<Rightarrow>
          (case generateContent w m testPrompt of
             Inl e \<Rightarrow> (Inl (Error (''Vertex AI connection test failed: '' @ message e)),
                       [GenerateContent testPrompt])
           | Inr txt \<Rightarrow> (Inr txt, [GenerateContent testPrompt])))"

text \<open>
  \<open>initialize\<close>: the credential variable, the credential file, the client, the
  connection test, then the flag. The \<open>catch\<close> stores the error in \<open>initError\<close> and
  rethrows it. The result is the outcome, the object afterwards and the effects.
  \<open>new VertexAI\<close> with an explicit project and location is taken to return a client.
\<close>

definition initialize ::
  "world \<Rightarrow> VertexAIConfig \<Rightarrow> (js_error + unit) \<times> VertexAIConfig \<times> effect list" where
  "initialize w s =
     (let serviceAccountPath = GOOGLE_APPLICATION_CREDENTIALS (env w) in
      if falsy serviceAccountPath then
        (let e = Error ''GOOGLE_APPLICATION_CREDENTIALS environment variable not set''
         in (Inl e, s\<lparr>initError := Some e\<rparr>, []))
      else
        (let fullPath = path_resolve w (the serviceAccountPath) in
         if \<not> fs_existsSync w fullPath then
           (let e = Error (''Service account file not found: '' @ fullPath)
            in (Inl e, s\<lparr>initError := Some e\<rparr>, [ExistsSync fullPath]))
         else
           (let s1 = s\<lparr>vertexAI := Some \<lparr>project = projectId s, clientLocation = location s\<rparr>\<rparr>;
                fx = [ExistsSync fullPath, NewVertexAI (projectId s) (location s)]
            in case testConnection w s1 of
                 (Inl e, fx') \<Rightarrow> (Inl e, s1\<lparr>initError := Some e\<rparr>, fx @ fx')
               | (Inr txt, fx') \<Rightarrow> (Inr (), s1\<lparr>isInitialized := True\<rparr>, fx @ fx'))))"

text \<open>\<open>getStatus\<close>: \<open>this.initError?.message || null\<close> turns an empty message into \<open>null\<close>.\<close>

definition getStatus :: "VertexAIConfig \<Rightarrow> json" where
  "getStatus s =
     JObj [(''initialized'', JBool (isInitialized s)),
           (''error'', (case initError s of
                          None \<Rightarrow> JNull
                        | Some e \<Rightarrow> if message e = [] then JNull else JStr (message e))),
           (''config'', JObj [(''projectId'', JStr (projectId s)),
                              (''location'', JStr (location s)),
                              (''model'', JStr (model s)),
                              (''maxTokens'', JNum (real_of_int (maxTokens s))),
                              (''temperature'', JNum (temperature s))])]"

definition permissionSuggestions :: "string list" where
  \<open>permissionSuggestions =
     [''Ensure service account has "Vertex AI User" role'',
      ''Ensure service account has "AI Platform Developer" role'',
      ''Check if Vertex AI API is enabled in your project'',
      ''Verify the service account key file is valid'']\<close>

text \<open>
  \<open>checkPermissions\<close>: the whole body is inside \<open>try\<close>, and the \<open>catch\<close> returns a
  value. The result type keeps the rejected case (\<open>Inl\<close>) of an \<open>async\<close> function.
\<close>

definition checkPermissions :: "world \<Rightarrow> VertexAIConfig \<Rightarrow> (js_error + json) \<times> effect list" where
  "checkPermissions w s =
     (let caught = (\<lambda>e. JObj [(''hasPermissions'', JBool False),
                              (''error'', JStr (message e)),
                              (''suggestions'', JArr (map JStr permissionSuggestions))])
      in case getModel s of
           Inl e \<Rightarrow> (Inr (caught e), [])
         | Inr m \<Rightarrow>
             (case generateContent w m ''Test permissions'' of
                Inl e \<Rightarrow> (Inr (caught e), [GenerateContent ''Test permissions''])
              | Inr txt \<Rightarrow> (Inr (JObj [(''hasPermissions'', JBool True), (''error'', JNull)]),
                            [GenerateContent ''Test permissions''])))"

section \<open>middleware/vertexaiMiddleware.js\<close>

text \<open>A middleware either calls \<open>next()\<close> or sends a response with a status and a body.\<close>

datatype 'a step_result = Next 'a | Respond nat json

definition initSuggestions :: "string list" where
  "initSuggestions =
     [''Check if service account file exists'',
      ''Verify Google Cloud project ID is correct'',
      ''Ensure Vertex AI API is enabled'',
      ''Check service account permissions'']"

definition ensureVertexAI ::
  "world \<Rightarrow> VertexAIConfig \<Rightarrow> unit step_result \<times> VertexAIConfig \<times> effect list" where
  "ensureVertexAI w s =
     (if \<not> isInitialized s then
        (case initialize w s of
           (Inl e, s', fx) \<Rightarrow>
             (Respond 503 (JObj [(''success'', JBool False),
                                 (''error'', JStr ''AI service unavailable''),
                                 (''details'', JStr (message e)),
                                 (''suggestions'', JArr (map JStr initSuggestions)),
                                 (''status'', getStatus s')]),
              s', fx)
         | (Inr u, s', fx) \<Rightarrow> (Next (), s', fx))
      else (Next (), s, []))"

text \<open>\<open>addVertexAIModel\<close> puts the model handle on the request or answers 503.\<close>

definition addVertexAIModel :: "VertexAIConfig \<Rightarrow> gen_model step_result" where
  "addVertexAIModel s =
     (case getModel s of
        Inl e \<Rightarrow> Respond 503 (JObj [(''success'', JBool False),
                                     (''error'', JStr ''AI model unavailable''),
                                     (''details'', JStr (message e))])
      | Inr m \<Rightarrow> Next m)"

section \<open>middleware/errorHandler.js\<close>

text \<open>\<open>s.includes(sub)\<close>: \<open>sub\<close> occurs in \<open>s\<close> as a contiguous run of characters.\<close>

fun startsWith :: "string \<Rightarrow> string \<Rightarrow> bool" where
  "startsWith s [] = True"
| "startsWith [] (b # bs) = False"
| "startsWith (a # as) (b # bs) = (a = b \<and> startsWith as bs)"

fun includes_js :: "string \<Rightarrow> string \<Rightarrow> bool" where
  "includes_js [] sub = (sub = [])"
| "includes_js (c # cs) sub = (startsWith (c # cs) sub \<or> includes_js cs sub)"





section \<open>routes/vertexai.js\<close>

datatype route = Status | Test | Translate | ExplainKanji | ExplainGrammar | Chat | GenerateExamples

text \<open>
  \<open>req.body\<close>: the fields the handlers destructure. A field is a string (\<open>examples\<close> an
  array of strings) or \<open>undefined\<close>.
\<close>

record body =
  req_text :: "string option"
  req_targetLanguage :: "string option"
  req_kanji :: "string option"
  req_context :: "string option"
  req_grammar :: "string option"
  req_examples :: "string list option"
  req_message :: "string option"
  req_word :: "string option"
  req_reading :: "string option"
  req_meaning :: "string option"

definition nl :: string where
  "nl = [CHR 0x0A]"

text \<open>\<open>String.prototype.trim\<close> on the 8-bit range: white space and line terminators.\<close>

definition isSpace :: "char \<Rightarrow> bool" where
  "isSpace c = (c \<in> set [CHR 0x09, CHR 0x0A, CHR 0x0B, CHR 0x0C, CHR 0x0D, CHR 0x20, CHR 0xA0])"

definition trim :: "string \<Rightarrow> string" where
  "trim s = rev (dropWhile isSpace (rev (dropWhile isSpace s)))"

text \<open>The decimal digits of a number, as a template literal prints \<open>${i + 1}\<close>.\<close>

function toDecimal :: "nat \<Rightarrow> string" where
  "toDecimal n =
     (if n < 10 then [char_of (48 + n)] else toDecimal (n div 10) @ [char_of (48 + n mod 10)])"
  by pat_completeness auto
termination
  by (relation "measure id") auto

fun join :: "string \<Rightarrow> string list \<Rightarrow> string" where
  "join sep [] = []"
| "join sep [x] = x"
| "join sep (x # y # ys) = x @ sep @ join sep (y # ys)"

definition numbered :: "string list \<Rightarrow> string list" where
  "numbered xs = map (\<lambda>(i, ex). toDecimal (i + 1) @ ''. '' @ ex) (enumerate 0 xs)"

definition orEmpty :: "string option \<Rightarrow> string" where
  "orEmpty v = (case v of None \<Rightarrow> [] | Some x \<Rightarrow> x)"

text \<open>
  The body of each handler after \<open>try {\<close>: validation first, then the prompt, the remote
  call and the answer. A failed remote call is caught and answered with 500 and the
  handler's own error text. The result is the response and the effects.
\<close>

definition failed :: "string \<Rightarrow> js_error \<Rightarrow> nat \<times> json" where
  "failed what e =
     (500, JObj [(''success'', JBool False), (''error'', JStr what), (''details'', JStr (message e))])"

definition required :: "string \<Rightarrow> nat \<times> json" where
  "required what = (400, JObj [(''success'', JBool False), (''error'', JStr what)])"

definition ask ::
  "world \<Rightarrow> gen_model \<Rightarrow> string \<Rightarrow> string \<Rightarrow> (string \<Rightarrow> json) \<Rightarrow> (nat \<times> json) \<times> effect list" where
  "ask w m prompt what answer =
     (case generateContent w m prompt of
        Inl e \<Rightarrow> (failed what e, [GenerateContent prompt])
      | Inr txt \<Rightarrow> ((200, answer txt), [GenerateContent prompt]))"

definition testRoute :: "world \<Rightarrow> gen_model \<Rightarrow> (nat \<times> json) \<times> effect list" where
  \<open>testRoute w m =
     ask w m ''Say "Hello from Vertex AI Gemini!" in Japanese and Indonesian.''
       ''Failed to connect to Vertex AI''
       (\<lambda>txt. JObj [(''success'', JBool True),
                    (''message'', JStr ''Vertex AI connection successful''),
                    (''response'', JStr txt),
                    (''timestamp'', JStr (toISOString w))])\<close>

definition translate :: "world \<Rightarrow> gen_model \<Rightarrow> body \<Rightarrow> (nat \<times> json) \<times> effect list" where
  \<open>translate w m b =
     (let text = req_text b;
          targetLanguage = (case req_targetLanguage b of None \<Rightarrow> ''Indonesian'' | Some t \<Rightarrow> t)
      in if falsy text then (required ''Text is required for translation'', [])
         else ask w m
           (''Translate the following text to '' @ targetLanguage
            @ ''. Only provide the translation, no additional explanation:'' @ nl @ nl
            @ ''Text to translate: "'' @ the text @ ''"'' @ nl @ nl
            @ ''Translation:'')
           ''Translation failed''
           (\<lambda>txt. JObj [(''success'', JBool True),
                        (''originalText'', JStr (the text)),
                        (''translation'', JStr (trim txt)),
                        (''targetLanguage'', JStr targetLanguage),
                        (''confidence'', JNum (9 / 10)),
                        (''timestamp'', JStr (toISOString w))]))\<close>

definition explainKanji :: "world \<Rightarrow> gen_model \<Rightarrow> body \<Rightarrow> (nat \<times> json) \<times> effect list" where
  \<open>explainKanji w m b =
     (let kanji = req_kanji b; context = req_context b
      in if falsy kanji then (required ''Kanji character is required'', [])
         else ask w m
           (''Explain the kanji "'' @ the kanji
            @ ''" in Indonesian language. Include the following information:'' @ nl @ nl
            @ ''1. Arti dan makna kanji'' @ nl
            @ ''2. Cara baca (onyomi dan kunyomi) '' @ nl
            @ ''3. Penggunaan dalam kehidupan sehari-hari'' @ nl
            @ ''4. Contoh kata yang menggunakan kanji ini'' @ nl
            @ ''5. Sejarah atau asal-usul kanji (jika relevan)'' @ nl @ nl
            @ (if falsy context then [] else ''Additional context: '' @ the context) @ nl @ nl
            @ ''Please provide a comprehensive but concise explanation in Indonesian:'')
           ''Kanji explanation failed''
           (\<lambda>txt. JObj [(''success'', JBool True),
                        (''kanji'', JStr (the kanji)),
                        (''explanation'', JStr (trim txt)),
                        (''confidence'', JNum (9 / 10)),
                        (''timestamp'', JStr (toISOString w))]))\<close>

definition explainGrammar :: "world \<Rightarrow> gen_model \<Rightarrow> body \<Rightarrow> (nat \<times> json) \<times> effect list" where
  \<open>explainGrammar w m b =
     (let grammar = req_grammar b; examples = req_examples b; context = req_context b
      in if falsy grammar then (required ''Grammar pattern is required'', [])
         else
           (let examplesText =
                  (case examples of
                     None \<Rightarrow> []
                   | Some xs \<Rightarrow>
                       if length xs > 0
                       then nl @ nl @ ''Contoh kalimat:'' @ nl @ join nl (numbered xs)
                       else [])
            in ask w m
              (''Jelaskan pola tata bahasa Jepang "'' @ the grammar
               @ ''" dalam bahasa Indonesia. Sertakan informasi berikut:'' @ nl @ nl
               @ ''1. Struktur dan rumus tata bahasa'' @ nl
               @ ''2. Kapan dan bagaimana menggunakannya'' @ nl
               @ ''3. Nuansa makna yang terkandung'' @ nl
               @ ''4. Perbedaan dengan pola tata bahasa serupa (jika ada)'' @ nl
               @ ''5. Tips untuk mengingat dan menggunakan pola ini'' @ nl @ nl
               @ examplesText @ nl @ nl
               @ (if falsy context then [] else ''Konteks tambahan: '' @ the context) @ nl @ nl
               @ ''Berikan penjelasan yang komprehensif namun mudah dipahami dalam bahasa Indonesia:'')
              ''Grammar explanation failed''
              (\<lambda>txt. JObj [(''success'', JBool True),
                           (''grammar'', JStr (the grammar)),
                           (''explanation'', JStr (trim txt)),
                           (''examples'', JArr (map JStr (case examples of None \<Rightarrow> [] | Some xs \<Rightarrow> xs))),
                           (''confidence'', JNum (9 / 10)),
                           (''timestamp'', JStr (toISOString w))])))\<close>

definition chat :: "world \<Rightarrow> gen_model \<Rightarrow> body \<Rightarrow> (nat \<times> json) \<times> effect list" where
  \<open>chat w m b =
     (let msg = req_message b; context = req_context b
      in if falsy msg then (required ''Message is required'', [])
         else ask w m
           (''You are a helpful Japanese language learning assistant. Respond in Indonesian language.''
            @ nl @ nl
            @ (if falsy context then [] else ''Context: '' @ the context) @ nl @ nl
            @ ''User question: '' @ the msg @ nl @ nl
            @ ''Please provide a helpful and educational response:'')
           ''Chat response failed''
           (\<lambda>txt. JObj [(''success'', JBool True),
                        (''userMessage'', JStr (the msg)),
                        (''aiResponse'', JStr (trim txt)),
                        (''confidence'', JNum (9 / 10)),
                        (''timestamp'', JStr (toISOString w))]))\<close>

definition generateExamples :: "world \<Rightarrow> gen_model \<Rightarrow> body \<Rightarrow> (nat \<times> json) \<times> effect list" where
  \<open>generateExamples w m b =
     (let word = req_word b; reading = req_reading b; meaning = req_meaning b
      in if falsy word then (required ''Word is required'', [])
         else ask w m
           (''Generate 3 example sentences using the Japanese word "'' @ the word
            @ ''" (reading: '' @ or_default reading ''unknown''
            @ '', meaning: '' @ or_default meaning ''unknown'' @ '').'' @ nl @ nl
            @ ''For each example, provide:'' @ nl
            @ ''1. Japanese sentence'' @ nl
            @ ''2. Romaji reading'' @ nl
            @ ''3. Indonesian translation'' @ nl @ nl
            @ ''Format the response as JSON array with objects containing: sentence, reading, meaning''
            @ nl @ nl
            @ ''Examples:'')
           ''Example generation failed''
           (\<lambda>txt. JObj [(''success'', JBool True),
                        (''word'', JStr (the word)),
                        (''examples'', JStr (trim txt)),
                        (''confidence'', JNum (9 / 10)),
                        (''timestamp'', JStr (toISOString w))]))\<close>

text \<open>The keys of an object, for the spread \<open>...status\<close>.\<close>

fun entries :: "json \<Rightarrow> (string \<times> json) list" where
  "entries (JObj kvs) = kvs"
| "entries _ = []"

definition statusRoute :: "world \<Rightarrow> VertexAIConfig \<Rightarrow> (nat \<times> json) \<times> effect list" where
  "statusRoute w s =
     (let status = getStatus s in
      case checkPermissions w s of
        (Inl e, fx) \<Rightarrow> (failed ''Status check failed'' e, fx)
      | (Inr permissions, fx) \<Rightarrow>
          ((200, JObj ([(''success'', JBool True), (''status'', JStr ''Vertex AI is running'')]
                       @ entries status
                       @ [(''permissions'', permissions),
                          (''timestamp'', JStr (toISOString w))])),
           fx))"

definition handler ::
  "world \<Rightarrow> VertexAIConfig \<Rightarrow> gen_model \<Rightarrow> route \<Rightarrow> body \<Rightarrow> (nat \<times> json) \<times> effect list" where
  "handler w s m r b =
     (case r of
        Status \<Rightarrow> statusRoute w s
      | Test \<Rightarrow> testRoute w m
      | Translate \<Rightarrow> translate w m b
      | ExplainKanji \<Rightarrow> explainKanji w m b
      | ExplainGrammar \<Rightarrow> explainGrammar w m b
      | Chat \<Rightarrow> chat w m b
      | GenerateExamples \<Rightarrow> generateExamples w m b)"

text \<open>
  The router: \<open>router.use(ensureVertexAI)\<close> and \<open>router.use(addVertexAIModel)\<close> come
  before every route, so a request reaches its handler only when both call \<open>next()\<close>.
\<close>

definition router ::
  "world \<Rightarrow> VertexAIConfig \<Rightarrow> route \<Rightarrow> body \<Rightarrow> (nat \<times> json) \<times> VertexAIConfig \<times> effect list" where
  "router w s r b =
     (case ensureVertexAI w s of
        (Respond st j, s', fx) \<Rightarrow> ((st, j), s', fx)
      | (Next u, s', fx) \<Rightarrow>
          (case addVertexAIModel s' of
             Respond st j \<Rightarrow> ((st, j), s', fx)
           | Next m \<Rightarrow> (case handler w s' m r b of (resp, fx') \<Rightarrow> (resp, s', fx @ fx'))))"

text \<open>The field each route requires; the status and test routes require none.\<close>

definition requiredField :: "route \<Rightarrow> body \<Rightarrow> string option option" where
  "requiredField r b =
     (case r of
        Status \<Rightarrow> None
      | Test \<Rightarrow> None
      | Translate \<Rightarrow> Some (req_text b)
      | ExplainKanji \<Rightarrow> Some (req_kanji b)
      | ExplainGrammar \<Rightarrow> Some (req_grammar b)
      | Chat \<Rightarrow> Some (req_message b)
      | GenerateExamples \<Rightarrow> Some (req_word b))"

definition missingRequired :: "route \<Rightarrow> body \<Rightarrow> bool" where
  "missingRequired r b = (case requiredField r b of None \<Rightarrow> False | Some v \<Rightarrow> falsy v)"

section \<open>Calls of ensureVertexAI in flight together\<close>

text \<open>
  An \<open>async\<close> function runs without interruption up to its next \<open>await\<close>, and is
  resumed later; between the two, other calls may run their own pieces on the same
  configuration object. A call of \<open>ensureVertexAI\<close> is therefore cut at its three
  \<open>await\<close>s: on the remote answer in \<open>testConnection\<close>, on \<open>this.testConnection()\<close>
  in \<open>initialize\<close>, and on \<open>vertexAIConfig.initialize()\<close> in the middleware. A
  \<open>task\<close> says where a call stands.
\<close>

datatype task =
    Start
  | AwaitRemote gen_model
  | TestSettled "js_error + string"
  | InitSettled "js_error + unit"
  | Finished "unit step_result"

text \<open>
  The piece of \<open>initialize\<close> up to its \<open>await\<close>. A failed credential check is caught
  at once, so \<open>initError\<close> is written in this piece; a failure of \<open>getModel\<close> inside
  \<open>testConnection\<close> rejects the promise that \<open>initialize\<close> awaits.
\<close>

definition initialize_begin :: "world \<Rightarrow> VertexAIConfig \<Rightarrow> task \<times> VertexAIConfig \<times> effect list" where
  "initialize_begin w s =
     (let serviceAccountPath = GOOGLE_APPLICATION_CREDENTIALS (env w) in
      if falsy serviceAccountPath then
        (let e = Error ''GOOGLE_APPLICATION_CREDENTIALS environment variable not set''
         in (InitSettled (Inl e), s\<lparr>initError := Some e\<rparr>, []))
      else
        (let fullPath = path_resolve w (the serviceAccountPath) in
         if \<not> fs_existsSync w fullPath then
           (let e = Error (''Service account file not found: '' @ fullPath)
            in (InitSettled (Inl e), s\<lparr>initError := Some e\<rparr>, [ExistsSync fullPath]))
         else
           (let s1 = s\<lparr>vertexAI := Some \<lparr>project = projectId s, clientLocation = location s\<rparr>\<rparr>;
                fx = [ExistsSync fullPath, NewVertexAI (projectId s) (location s)]
            in case getModel s1 of
                 Inl e \<Rightarrow>
                   (TestSettled (Inl (Error (''Vertex AI connection test failed: '' @ message e))),
                    s1, fx)
               | Inr m \<Rightarrow> (AwaitRemote m, s1, fx @ [GenerateContent testPrompt]))))"

fun step_task :: "world \<Rightarrow> task \<Rightarrow> VertexAIConfig \<Rightarrow> task \<times> VertexAIConfig \<times> effect list" where
  "step_task w Start s =
     (if \<not> isInitialized s then initialize_begin w s else (Finished (Next ()), s, []))"
| "step_task w (AwaitRemote m) s =
     (case generateContent w m testPrompt of
        Inl e \<Rightarrow> (TestSettled (Inl (Error (''Vertex AI connection test failed: '' @ message e))), s, [])
      | Inr txt \<Rightarrow> (TestSettled (Inr txt), s, []))"
| "step_task w (TestSettled (Inl e)) s = (InitSettled (Inl e), s\<lparr>initError := Some e\<rparr>, [])"
| "step_task w (TestSettled (Inr txt)) s = (InitSettled (Inr ()), s\<lparr>isInitialized := True\<rparr>, [])"
| "step_task w (InitSettled (Inl e)) s =
     (Finished (Respond 503 (JObj [(''success'', JBool False),
                                   (''error'', JStr ''AI service unavailable''),
                                   (''details'', JStr (message e)),
                                   (''suggestions'', JArr (map JStr initSuggestions)),
                                   (''status'', getStatus s)])),
      s, [])"
| "step_task w (InitSettled (Inr u)) s = (Finished (Next ()), s, [])"
| "step_task w (Finished r) s = (Finished r, s, [])"

text \<open>
  The calls in flight, the one configuration object they share, and the effects so far.
  \<open>step w i\<close> runs the next piece of call \<open>i\<close>; a schedule is the order in which
  pieces run.
\<close>

record system =
  shared :: VertexAIConfig
  tasks :: "task list"
  effects :: "effect list"

definition step :: "world \<Rightarrow> nat \<Rightarrow> system \<Rightarrow> system" where
  "step w i sys =
     (if i < length (tasks sys) then
        (case step_task w (tasks sys ! i) (shared sys) of
           (t, s', fx) \<Rightarrow>
             \<lparr> shared = s', tasks = (tasks sys)[i := t], effects = effects sys @ fx \<rparr>)
      else sys)"

fun run :: "world \<Rightarrow> nat list \<Rightarrow> system \<Rightarrow> system" where
  "run w [] sys = sys"
| "run w (i # sched) sys = run w sched (step w i sys)"

definition calls :: "VertexAIConfig \<Rightarrow> nat \<Rightarrow> system" where
  "calls s n = \<lparr> shared = s, tasks = replicate n Start, effects = [] \<rparr>"

text \<open>
  A handshake begins with the check of the credential file and goes on with the
  construction of the client; these count them in a list of effects.
\<close>

fun isExistsSync :: "effect \<Rightarrow> bool" where
  "isExistsSync (ExistsSync p) = True"
| "isExistsSync _ = False"

fun isNewVertexAI :: "effect \<Rightarrow> bool" where
  "isNewVertexAI (NewVertexAI p l) = True"
| "isNewVertexAI _ = False"

definition credentialChecks :: "effect list \<Rightarrow> nat" where
  "credentialChecks fx = length (filter isExistsSync fx)"

definition clientConstructions :: "effect list \<Rightarrow> nat" where
  "clientConstructions fx = length (filter isNewVertexAI fx)"

fun isFinished :: "task \<Rightarrow> bool" where
  "isFinished (Finished r) = True"
| "isFinished _ = False"

fun isStart :: "task \<Rightarrow> bool" where
  "isStart Start = True"
| "isStart _ = False"

definition started :: "task list \<Rightarrow> nat" where
  "started ts = length (filter (\<lambda>t. \<not> isStart t) ts)"

text \<open>
  The places from which a call can no longer set \<open>isInitialized\<close>: it has not begun,
  or its connection test has failed, or \<open>initialize\<close> has settled.
\<close>

fun cannotSetFlag :: "task \<Rightarrow> bool" where
  "cannotSetFlag Start = True"
| "cannotSetFlag (AwaitRemote m) = False"
| "cannotSetFlag (TestSettled (Inl e)) = True"
| "cannotSetFlag (TestSettled (Inr txt)) = False"
| "cannotSetFlag (InitSettled r) = True"
| "cannotSetFlag (Finished r) = True"

text \<open>
  What holds all along a run that starts with the flag unset: the flag is unset, no call
  is at a place from which it could set it, and there are as many checks of the
  credential file as calls that have begun.
\<close>

definition no_flag :: "system \<Rightarrow> bool" where
  "no_flag sys =
     (\<not> isInitialized (shared sys) \<and> list_all cannotSetFlag (tasks sys)
      \<and> credentialChecks (effects sys) = started (tasks sys))"

text \<open>
  The states of the specification read off the object: there is no value for
  \<open>Initializing\<close>.
\<close>

definition uninitialized :: "VertexAIConfig \<Rightarrow> bool" where
  "uninitialized s = (\<not> isInitialized s \<and> initError s = None)"

section \<open>Sample surroundings\<close>

definition env_sample :: process_env where
  "env_sample =
     \<lparr> GOOGLE_CLOUD_PROJECT_ID = None, GOOGLE_CLOUD_LOCATION = None, VERTEX_AI_MODEL = None,
       VERTEX_AI_MAX_TOKENS = None, VERTEX_AI_TEMPERATURE = None,
       GOOGLE_APPLICATION_CREDENTIALS = Some ''service-account.json'', NODE_ENV = None \<rparr>"

text \<open>Everything in place: the credential file exists and the remote service answers.\<close>

definition world_ok :: world where
  "world_ok =
     \<lparr> env = env_sample, parseInt = (\<lambda>v. None), parseFloat = (\<lambda>v. None),
       path_resolve = (\<lambda>p. ''/app/'' @ p), fs_existsSync = (\<lambda>p. True),
       generateContent = (\<lambda>m p. Inr ''Hello from Vertex AI Gemini!''),
       toISOString = ''2024-01-01T00:00:00.000Z'' \<rparr>"

text \<open>The same, but the credential file is missing.\<close>

definition world_nofile :: world where
  "world_nofile = world_ok\<lparr>fs_existsSync := (\<lambda>p. False)\<rparr>"

text \<open>The same as \<open>world_ok\<close>, but the remote service refuses every call.\<close>

definition world_denied :: world where
  "world_denied = world_ok\<lparr>generateContent := (\<lambda>m p. Inl (Error ''Permission denied''))\<rparr>"

text \<open>An object in the Ready state that still carries the error of an earlier attempt.\<close>

definition ready_after_failure :: VertexAIConfig where
  "ready_after_failure =
     (constructor world_ok)
       \<lparr> vertexAI := Some \<lparr>project = ''dark-pipe-465302-g3'', clientLocation = ''us-central1''\<rparr>,
         isInitialized := True,
         initError := Some (Error ''Service account file not found: /app/service-account.json'') \<rparr>"

text \<open>The Failed state: the object after an attempt that found no credential file.\<close>

definition failedState :: VertexAIConfig where
  "failedState = fst (snd (initialize world_nofile (constructor world_nofile)))"

definition emptyBody :: body where
  "emptyBody =
     \<lparr> req_text = None, req_targetLanguage = None, req_kanji = None, req_context = None,
       req_grammar = None, req_examples = None, req_message = None, req_word = None,
       req_reading = None, req_meaning = None \<rparr>"

section \<open>Properties\<close>

lemmas init_defs = initialize_def testConnection_def getModel_def Let_def falsy_def

lemmas sample_defs = world_ok_def world_nofile_def world_denied_def env_sample_def
  constructor_def or_default_def num_or_default_def ready_after_failure_def failedState_def

lemmas route_defs = handler_def translate_def explainKanji_def explainGrammar_def chat_def
  generateExamples_def required_def missingRequired_def requiredField_def

subsection \<open>Substrings\<close>

lemma startsWith_iff: "startsWith s sub \<longleftrightarrow> (\<exists>b. s = sub @ b)"
  by (induction s sub rule: startsWith.induct) auto

lemma includes_js_iff: "includes_js s sub \<longleftrightarrow> (\<exists>a b. s = a @ sub @ b)"
proof (induction s)
  case Nil
  then show ?case by auto
next
  case (Cons c cs)
  show ?case
  proof
    assume "includes_js (c # cs) sub"
    then consider "startsWith (c # cs) sub" | "includes_js cs sub" by auto
    then show "\<exists>a b. c # cs = a @ sub @ b"
    proof cases
      case 1
      then obtain b where "c # cs = sub @ b" using startsWith_iff by blast
      then have "c # cs = [] @ sub @ b" by simp
      then show ?thesis by blast
    next
      case 2
      then obtain a b where "cs = a @ sub @ b" using Cons.IH by blast
      then have "c # cs = (c # a) @ sub @ b" by simp
      then show ?thesis by blast
    qed
  next
    assume "\<exists>a b. c # cs = a @ sub @ b"
    then obtain a b where ab: "c # cs = a @ sub @ b" by blast
    show "includes_js (c # cs) sub"
    proof (cases a)
      case Nil
      with ab have "startsWith (c # cs) sub" using startsWith_iff by auto
      then show ?thesis by simp
    next
      case (Cons x a')
      with ab have "cs = a' @ sub @ b" by simp
      then have "includes_js cs sub" using Cons.IH by blast
      then show ?thesis by simp
    qed
  qed
qed

subsection \<open>The flag is never set from a state in which it is not set\<close>

text \<open>
  \<open>initialize\<close> sets \<open>isInitialized\<close> only after \<open>testConnection\<close>, and
  \<open>testConnection\<close> begins with \<open>getModel\<close>, which throws while the flag is not set.
  So an attempt that starts with the flag unset ends with the flag unset, and fails.
\<close>

lemma initialize_stays_not_ready:
  "\<not> isInitialized s \<Longrightarrow>
     \<not> isInitialized (fst (snd (initialize w s))) \<and> isl (fst (initialize w s))"
  by (simp add: init_defs)

lemma ensureVertexAI_stays_not_ready:
  "\<not> isInitialized s \<Longrightarrow> \<not> isInitialized (fst (snd (ensureVertexAI w s)))"
  using initialize_stays_not_ready[of s w]
  by (auto simp: ensureVertexAI_def split: prod.splits sum.splits)

lemma router_after_ensure:
  "\<exists>resp fx'. router w s r b =
      (resp, fst (snd (ensureVertexAI w s)), snd (snd (ensureVertexAI w s)) @ fx')"
  by (auto simp: router_def split: prod.splits step_result.splits)

lemma handler_missing:
  "missingRequired r b \<Longrightarrow>
     \<exists>msg. handler w s m r b =
       ((400, JObj [(''success'', JBool False), (''error'', JStr msg)]), [])"
  by (cases r) (auto simp: route_defs Let_def)

lemma handler_400_only_missing:
  "fst (fst (handler w s m r b)) = 400 \<Longrightarrow> missingRequired r b"
  by (cases r)
     (auto simp: route_defs ask_def failed_def statusRoute_def testRoute_def Let_def
           split: sum.splits prod.splits if_splits)

lemma ensureVertexAI_not_ready_503:
  assumes "\<not> isInitialized s"
  shows "\<exists>j s' fx. ensureVertexAI w s = (Respond 503 j, s', fx)"
proof -
  from initialize_stays_not_ready[OF assms, of w] have "isl (fst (initialize w s))" by simp
  then show ?thesis
    using assms by (auto simp: ensureVertexAI_def isl_def split: prod.splits sum.splits)
qed

lemma router_400_only_when_ready:
  assumes "fst (fst (router w s r b)) = 400"
  shows "missingRequired r b \<and> isInitialized s \<and> vertexAI s \<noteq> None"
proof (cases "isInitialized s")
  case False
  then obtain j s' fx where "ensureVertexAI w s = (Respond 503 j, s', fx)"
    using ensureVertexAI_not_ready_503 by blast
  then have "fst (fst (router w s r b)) = 503" by (simp add: router_def)
  with assms show ?thesis by simp
next
  case True
  then have e: "ensureVertexAI w s = (Next (), s, [])" by (simp add: ensureVertexAI_def)
  show ?thesis
  proof (cases "vertexAI s")
    case None
    with True e have "fst (fst (router w s r b)) = 503"
      by (simp add: router_def addVertexAIModel_def getModel_def)
    with assms show ?thesis by simp
  next
    case (Some c)
    let ?m = "\<lparr>ofClient = c, modelName = model s, maxOutputTokens = maxTokens s,
               genTemperature = temperature s\<rparr>"
    from True Some have g: "addVertexAIModel s = Next ?m"
      by (simp add: addVertexAIModel_def getModel_def)
    from e g have "fst (router w s r b) = fst (handler w s ?m r b)"
      by (simp add: router_def split: prod.splits)
    with assms have "fst (fst (handler w s ?m r b)) = 400" by simp
    then have "missingRequired r b" by (rule handler_400_only_missing)
    with True Some show ?thesis by simp
  qed
qed

subsection \<open>The state of the connection\<close>

text \<open>
  C2 (as the code has it). The claim is that the client handle is present if and only if
  the state is Ready. One direction holds and is kept by every operation that changes
  the object: whenever \<open>isInitialized\<close> is set, \<open>vertexAI\<close> holds a client. It holds of
  the freshly constructed object, and \<open>initialize\<close>, \<open>ensureVertexAI\<close> and the router
  preserve it. The other operations (\<open>getModel\<close>, \<open>getStatus\<close>, \<open>checkPermissions\<close>,
  \<open>addVertexAIModel\<close>) only read the object.
\<close>

theorem handle_present_when_ready:
  assumes "isInitialized s \<longrightarrow> vertexAI s \<noteq> None"
  shows "(isInitialized (fst (snd (initialize w s)))
            \<longrightarrow> vertexAI (fst (snd (initialize w s))) \<noteq> None)
       \<and> (isInitialized (fst (snd (ensureVertexAI w s)))
            \<longrightarrow> vertexAI (fst (snd (ensureVertexAI w s))) \<noteq> None)
       \<and> (isInitialized (fst (snd (router w s r b)))
            \<longrightarrow> vertexAI (fst (snd (router w s r b))) \<noteq> None)
       \<and> (isInitialized (constructor w') \<longrightarrow> vertexAI (constructor w') \<noteq> None)"
proof -
  have i: "isInitialized (fst (snd (initialize w s)))
            \<longrightarrow> vertexAI (fst (snd (initialize w s))) \<noteq> None"
    using assms by (auto simp: init_defs split: sum.splits option.splits)
  have e: "isInitialized (fst (snd (ensureVertexAI w s)))
            \<longrightarrow> vertexAI (fst (snd (ensureVertexAI w s))) \<noteq> None"
    using assms i by (auto simp: ensureVertexAI_def split: prod.splits sum.splits)
  obtain resp fx' where
    "router w s r b = (resp, fst (snd (ensureVertexAI w s)), snd (snd (ensureVertexAI w s)) @ fx')"
    using router_after_ensure by blast
  then have r: "fst (snd (router w s r b)) = fst (snd (ensureVertexAI w s))" by simp
  show ?thesis using i e r by (simp add: constructor_def)
qed

theorem handle_present_when_ready_witness:
  "isInitialized ready_after_failure \<and> vertexAI ready_after_failure \<noteq> None
   \<and> isInitialized (fst (snd (initialize world_ok ready_after_failure)))
   \<and> vertexAI (fst (snd (initialize world_ok ready_after_failure))) \<noteq> None"
proof -
  have h: "isInitialized ready_after_failure \<longrightarrow> vertexAI ready_after_failure \<noteq> None"
    by (simp add: sample_defs)
  have r: "isInitialized (fst (snd (initialize world_ok ready_after_failure)))"
    by (simp add: init_defs sample_defs)
  have p: "isInitialized ready_after_failure \<and> vertexAI ready_after_failure \<noteq> None"
    by (simp add: sample_defs)
  show ?thesis
    using p r handle_present_when_ready[OF h, of world_ok] by simp
qed

text \<open>
  C2 (as the claim states it) fails: an attempt on the fresh object, with the credential
  file in place, stores the client and then fails in the connection test. Afterwards the
  handle is present and the state is not Ready.
\<close>

theorem handle_left_after_failure_counterexample:
  "isl (fst (initialize world_ok (constructor world_ok)))
   \<and> \<not> isInitialized (fst (snd (initialize world_ok (constructor world_ok))))
   \<and> vertexAI (fst (snd (initialize world_ok (constructor world_ok))))
       = Some \<lparr>project = ''dark-pipe-465302-g3'', clientLocation = ''us-central1''\<rparr>"
  by (simp add: init_defs sample_defs)

text \<open>
  The success branch of \<open>initialize\<close> sets the flag and keeps the client built by the
  attempt; it has no assignment to \<open>initError\<close>, which is left as it was before the
  call.
\<close>

lemma initialize_success_keeps_initError:
  assumes "fst (initialize w s) = Inr ()"
  shows "isInitialized (fst (snd (initialize w s)))
       \<and> vertexAI (fst (snd (initialize w s)))
           = Some \<lparr>project = projectId s, clientLocation = location s\<rparr>
       \<and> initError (fst (snd (initialize w s))) = initError s"
  using assms
  by (auto simp: init_defs split: if_splits sum.splits option.splits prod.splits)


text \<open>
  C6 (the code at the failing input). From the Failed state, with the credential file now
  in place and the remote service answering, \<open>ensureVertexAI\<close> does run a new attempt
  (the file is checked and a client is built), but the attempt fails inside its own
  connection test with "not initialized", no request is sent, and the state is still not
  Ready.
\<close>

theorem no_recovery_from_failed:
  "\<not> isInitialized failedState
   \<and> initError failedState
       = Some (Error ''Service account file not found: /app/service-account.json'')
   \<and> fst (ensureVertexAI world_ok failedState) =
       Respond 503
         (JObj [(''success'', JBool False),
                (''error'', JStr ''AI service unavailable''),
                (''details'', JStr ''Vertex AI connection test failed: Vertex AI not initialized. Call initialize() first.''),
                (''suggestions'', JArr (map JStr initSuggestions)),
                (''status'', getStatus (fst (snd (ensureVertexAI world_ok failedState))))])
   \<and> \<not> isInitialized (fst (snd (ensureVertexAI world_ok failedState)))
   \<and> snd (snd (ensureVertexAI world_ok failedState)) =
       [ExistsSync ''/app/service-account.json'',
        NewVertexAI ''dark-pipe-465302-g3'' ''us-central1'']"
  by (simp add: init_defs sample_defs ensureVertexAI_def)

text \<open>
  C7. When the credential variable names a file that does not exist and the connection is
  not Ready, \<open>initialize\<close> throws an error whose message is
  \<open>Service account file not found: \<close> followed by the resolved path, stores it in
  \<open>initError\<close>, and \<open>ensureVertexAI\<close> answers 503 with that message as \<open>details\<close>. The
  constructor reads neither the credential variable nor the file system: its result is
  the same whatever they are, and it records no error.
\<close>

theorem missing_credentials_file:
  assumes "GOOGLE_APPLICATION_CREDENTIALS (env w) = Some p" and "p \<noteq> []"
    and "\<not> fs_existsSync w (path_resolve w p)" and "\<not> isInitialized s"
  shows "initialize w s =
           (Inl (Error (''Service account file not found: '' @ path_resolve w p)),
            s\<lparr>initError := Some (Error (''Service account file not found: '' @ path_resolve w p))\<rparr>,
            [ExistsSync (path_resolve w p)])
       \<and> ensureVertexAI w s =
           (Respond 503
              (JObj [(''success'', JBool False),
                     (''error'', JStr ''AI service unavailable''),
                     (''details'', JStr (''Service account file not found: '' @ path_resolve w p)),
                     (''suggestions'', JArr (map JStr initSuggestions)),
                     (''status'', getStatus (s\<lparr>initError :=
                        Some (Error (''Service account file not found: '' @ path_resolve w p))\<rparr>))]),
            s\<lparr>initError := Some (Error (''Service account file not found: '' @ path_resolve w p))\<rparr>,
            [ExistsSync (path_resolve w p)])
       \<and> constructor (w\<lparr>env := (env w)\<lparr>GOOGLE_APPLICATION_CREDENTIALS := c\<rparr>,
                         fs_existsSync := f\<rparr>) = constructor w
       \<and> initError (constructor w) = None"
  using assms by (simp add: init_defs ensureVertexAI_def constructor_def)

theorem missing_credentials_file_witness:
  "GOOGLE_APPLICATION_CREDENTIALS (env world_nofile) = Some ''service-account.json''
   \<and> \<not> fs_existsSync world_nofile (path_resolve world_nofile ''service-account.json'')
   \<and> \<not> isInitialized (constructor world_nofile)
   \<and> fst (initialize world_nofile (constructor world_nofile))
       = Inl (Error ''Service account file not found: /app/service-account.json'')"
  using missing_credentials_file[of world_nofile "''service-account.json''"
      "constructor world_nofile"]
  by (simp add: sample_defs)

text \<open>
  C8. Once \<open>isInitialized\<close> is set, \<open>ensureVertexAI\<close> calls \<open>next()\<close>, leaves the object
  as it is and has no effect: no file check, no client construction, no remote call.
\<close>

theorem ready_is_idempotent:
  "isInitialized s \<Longrightarrow> ensureVertexAI w s = (Next (), s, [])"
  by (simp add: ensureVertexAI_def)

theorem ready_is_idempotent_witness:
  "isInitialized ready_after_failure
   \<and> ensureVertexAI world_nofile ready_after_failure = (Next (), ready_after_failure, [])"
  using ready_is_idempotent[of ready_after_failure world_nofile]
  by (simp add: sample_defs)

text \<open>
  C9. \<open>getStatus\<close> is a function of the object alone: it has no failing branch and
  returns no changed object. On the freshly constructed object it reports
  \<open>initialized: false\<close>, \<open>error: null\<close> and the configuration.
\<close>

theorem getStatus_before_initialize:
  "getStatus (constructor w) =
     JObj [(''initialized'', JBool False),
           (''error'', JNull),
           (''config'', JObj [(''projectId'', JStr (projectId (constructor w))),
                              (''location'', JStr (location (constructor w))),
                              (''model'', JStr (model (constructor w))),
                              (''maxTokens'', JNum (real_of_int (maxTokens (constructor w)))),
                              (''temperature'', JNum (temperature (constructor w)))])]
   \<and> field ''initialized'' (getStatus (constructor w)) = JBool False
   \<and> field ''error'' (getStatus (constructor w)) = JNull"
  by (simp add: getStatus_def constructor_def)

subsection \<open>The permission check\<close>

text \<open>
  C5 (as the code has it). \<open>checkPermissions\<close> never rejects: every error inside it,
  that of \<open>getModel\<close> on an object that is not Ready as much as a refusal by the remote
  service, is caught and returned as \<open>hasPermissions: false\<close> with the error's message
  and the fixed list of suggestions.
\<close>

theorem checkPermissions_returns_value:
  "(\<exists>v. fst (checkPermissions w s) = Inr v)
   \<and> (getModel s = Inl e \<longrightarrow>
        checkPermissions w s =
          (Inr (JObj [(''hasPermissions'', JBool False),
                      (''error'', JStr (message e)),
                      (''suggestions'', JArr (map JStr permissionSuggestions))]), []))
   \<and> (getModel s = Inr m \<and> generateContent w m ''Test permissions'' = Inl e \<longrightarrow>
        checkPermissions w s =
          (Inr (JObj [(''hasPermissions'', JBool False),
                      (''error'', JStr (message e)),
                      (''suggestions'', JArr (map JStr permissionSuggestions))]),
           [GenerateContent ''Test permissions'']))"
  by (auto simp: checkPermissions_def split: sum.splits)

theorem checkPermissions_returns_value_witness:
  "getModel (constructor world_ok)
     = Inl (Error ''Vertex AI not initialized. Call initialize() first.'')
   \<and> fst (checkPermissions world_ok (constructor world_ok)) =
       Inr (JObj [(''hasPermissions'', JBool False),
                  (''error'', JStr ''Vertex AI not initialized. Call initialize() first.''),
                  (''suggestions'', JArr (map JStr permissionSuggestions))])
   \<and> getModel ready_after_failure =
       Inr \<lparr>ofClient = \<lparr>project = ''dark-pipe-465302-g3'', clientLocation = ''us-central1''\<rparr>,
            modelName = ''gemini-pro'', maxOutputTokens = 1000, genTemperature = 7 / 10\<rparr>
   \<and> fst (checkPermissions world_denied ready_after_failure) =
       Inr (JObj [(''hasPermissions'', JBool False),
                  (''error'', JStr ''Permission denied''),
                  (''suggestions'', JArr (map JStr permissionSuggestions))])"
proof -
  let ?m = "\<lparr>ofClient = \<lparr>project = ''dark-pipe-465302-g3'', clientLocation = ''us-central1''\<rparr>,
            modelName = ''gemini-pro'', maxOutputTokens = 1000, genTemperature = 7 / 10\<rparr>"
  have a: "getModel (constructor world_ok)
             = Inl (Error ''Vertex AI not initialized. Call initialize() first.'')"
    by (simp add: getModel_def sample_defs)
  have b: "getModel ready_after_failure = Inr ?m"
    by (simp add: getModel_def sample_defs)
  have c: "generateContent world_denied ?m ''Test permissions'' = Inl (Error ''Permission denied'')"
    by (simp add: sample_defs)
  show ?thesis
    using a b c
      checkPermissions_returns_value[of world_ok "constructor world_ok"
        "Error ''Vertex AI not initialized. Call initialize() first.''"]
      checkPermissions_returns_value[of world_denied ready_after_failure
        "Error ''Permission denied''" ?m]
    by simp
qed

text \<open>
  C5 (as the claim states it) fails: on the fresh object, which is not Ready,
  \<open>checkPermissions\<close> returns a value and does not reject.
\<close>

theorem checkPermissions_not_ready_counterexample:
  "fst (checkPermissions world_ok (constructor world_ok)) =
     Inr (JObj [(''hasPermissions'', JBool False),
                (''error'', JStr ''Vertex AI not initialized. Call initialize() first.''),
                (''suggestions'', JArr (map JStr permissionSuggestions))])
   \<and> \<not> isl (fst (checkPermissions world_ok (constructor world_ok)))"
  by (simp add: checkPermissions_def getModel_def sample_defs)

subsection \<open>The error handler\<close>




subsection \<open>The order of the connection check and the validation\<close>

text \<open>
  C4 (as the code has it). The router runs \<open>ensureVertexAI\<close> before every handler: the
  object and the effects of a request begin with those of \<open>ensureVertexAI\<close>; when
  \<open>ensureVertexAI\<close> answers, that answer is the response and the handler's validation is
  not reached, whatever the request body. A request is answered 400 exactly when it
  lacks its required field and the connection is Ready with the client stored; the
  object is then unchanged and there is no effect.
\<close>

theorem connection_check_precedes_validation:
  "(\<exists>resp fx'. router w s r b =
       (resp, fst (snd (ensureVertexAI w s)), snd (snd (ensureVertexAI w s)) @ fx'))
   \<and> (ensureVertexAI w s = (Respond st j, s', fx) \<longrightarrow> router w s r b = ((st, j), s', fx))
   \<and> (missingRequired r b \<and> isInitialized s \<and> vertexAI s \<noteq> None \<longrightarrow>
        (\<exists>msg. router w s r b =
           ((400, JObj [(''success'', JBool False), (''error'', JStr msg)]), s, [])))
   \<and> (fst (fst (router w s r b)) = 400 \<longrightarrow>
        missingRequired r b \<and> isInitialized s \<and> vertexAI s \<noteq> None)"
proof (intro conjI impI)
  show "\<exists>resp fx'. router w s r b =
       (resp, fst (snd (ensureVertexAI w s)), snd (snd (ensureVertexAI w s)) @ fx')"
    by (rule router_after_ensure)
next
  assume "ensureVertexAI w s = (Respond st j, s', fx)"
  then show "router w s r b = ((st, j), s', fx)" by (simp add: router_def)
next
  assume a: "missingRequired r b \<and> isInitialized s \<and> vertexAI s \<noteq> None"
  then obtain c where c: "vertexAI s = Some c" by auto
  let ?m = "\<lparr>ofClient = c, modelName = model s, maxOutputTokens = maxTokens s,
             genTemperature = temperature s\<rparr>"
  from a c have e: "ensureVertexAI w s = (Next (), s, [])" and g: "addVertexAIModel s = Next ?m"
    by (simp_all add: ensureVertexAI_def addVertexAIModel_def getModel_def)
  from a obtain msg where
    "handler w s ?m r b = ((400, JObj [(''success'', JBool False), (''error'', JStr msg)]), [])"
    using handler_missing by blast
  with e g show "\<exists>msg. router w s r b =
           ((400, JObj [(''success'', JBool False), (''error'', JStr msg)]), s, [])"
    by (simp add: router_def)
next
  assume a: "fst (fst (router w s r b)) = 400"
  from router_400_only_when_ready[OF a] show "missingRequired r b" by simp
  from router_400_only_when_ready[OF a] show "isInitialized s" by simp
  from router_400_only_when_ready[OF a] show "vertexAI s \<noteq> None" by simp
qed

theorem connection_check_precedes_validation_witness:
  "ensureVertexAI world_nofile failedState =
      (Respond 503
         (JObj [(''success'', JBool False),
                (''error'', JStr ''AI service unavailable''),
                (''details'', JStr ''Service account file not found: /app/service-account.json''),
                (''suggestions'', JArr (map JStr initSuggestions)),
                (''status'', getStatus failedState)]),
       failedState, [ExistsSync ''/app/service-account.json''])
   \<and> fst (fst (router world_nofile failedState ExplainKanji (emptyBody\<lparr>req_kanji := Some []\<rparr>)))
       = 503
   \<and> missingRequired ExplainKanji (emptyBody\<lparr>req_kanji := Some []\<rparr>)
   \<and> isInitialized ready_after_failure \<and> vertexAI ready_after_failure \<noteq> None
   \<and> (\<exists>msg. router world_ok ready_after_failure ExplainKanji (emptyBody\<lparr>req_kanji := Some []\<rparr>) =
       ((400, JObj [(''success'', JBool False), (''error'', JStr msg)]),
        ready_after_failure, []))
   \<and> fst (fst (router world_ok ready_after_failure ExplainKanji (emptyBody\<lparr>req_kanji := Some []\<rparr>)))
       = 400"
proof -
  let ?b = "emptyBody\<lparr>req_kanji := Some []\<rparr>"
  let ?j = "JObj [(''success'', JBool False),
                  (''error'', JStr ''AI service unavailable''),
                  (''details'', JStr ''Service account file not found: /app/service-account.json''),
                  (''suggestions'', JArr (map JStr initSuggestions)),
                  (''status'', getStatus failedState)]"
  have e: "ensureVertexAI world_nofile failedState =
      (Respond 503 ?j, failedState, [ExistsSync ''/app/service-account.json''])"
    by (simp add: ensureVertexAI_def init_defs sample_defs)
  have m: "missingRequired ExplainKanji ?b \<and> isInitialized ready_after_failure
             \<and> vertexAI ready_after_failure \<noteq> None"
    by (simp add: route_defs falsy_def sample_defs)
  from e connection_check_precedes_validation[of world_nofile failedState ExplainKanji ?b 503 ?j
         failedState "[ExistsSync ''/app/service-account.json'']"]
  have r1: "router world_nofile failedState ExplainKanji ?b =
      ((503, ?j), failedState, [ExistsSync ''/app/service-account.json''])"
    by blast
  from m connection_check_precedes_validation[of world_ok ready_after_failure ExplainKanji ?b]
  have r2: "\<exists>msg. router world_ok ready_after_failure ExplainKanji ?b =
       ((400, JObj [(''success'', JBool False), (''error'', JStr msg)]),
        ready_after_failure, [])"
    by blast
  then have r3: "fst (fst (router world_ok ready_after_failure ExplainKanji ?b)) = 400"
    by auto
  show ?thesis using e m r1 r2 r3 by simp
qed

text \<open>
  C4 (as the claim states it) fails: in the Failed state, a request to explain a kanji
  with an empty \<open>kanji\<close> is answered 503 by \<open>ensureVertexAI\<close>, not 400, and only after a
  new attempt has checked the credential file.
\<close>

theorem validation_after_connection_counterexample:
  "missingRequired ExplainKanji (emptyBody\<lparr>req_kanji := Some []\<rparr>)
   \<and> \<not> isInitialized failedState
   \<and> initError failedState \<noteq> None
   \<and> fst (fst (router world_nofile failedState ExplainKanji (emptyBody\<lparr>req_kanji := Some []\<rparr>)))
       = 503
   \<and> field ''error''
        (snd (fst (router world_nofile failedState ExplainKanji (emptyBody\<lparr>req_kanji := Some []\<rparr>))))
       = JStr ''AI service unavailable''
   \<and> snd (snd (router world_nofile failedState ExplainKanji (emptyBody\<lparr>req_kanji := Some []\<rparr>)))
       = [ExistsSync ''/app/service-account.json'']"
  by (simp add: router_def ensureVertexAI_def init_defs sample_defs route_defs emptyBody_def)

subsection \<open>Calls in flight together\<close>

text \<open>
  One call run alone through its pieces does what \<open>ensureVertexAI\<close> does: the pieces
  are the function.
\<close>

lemma step_single:
  "step w 0 \<lparr>shared = s, tasks = [t], effects = fx\<rparr> =
     (case step_task w t s of
        (t', s', fx') \<Rightarrow> \<lparr>shared = s', tasks = [t'], effects = fx @ fx'\<rparr>)"
  by (simp add: step_def)

lemma single_call_is_ensureVertexAI:
  "run w [0, 0, 0, 0] (calls s 1) =
     (case ensureVertexAI w s of (r, s', fx) \<Rightarrow> \<lparr> shared = s', tasks = [Finished r], effects = fx \<rparr>)"
proof (cases "isInitialized s")
  case True
  then show ?thesis by (simp add: ensureVertexAI_def calls_def step_single)
next
  case nr: False
  show ?thesis
  proof (cases "falsy (GOOGLE_APPLICATION_CREDENTIALS (env w))")
    case True
    with nr show ?thesis
      by (simp add: ensureVertexAI_def initialize_def calls_def step_single initialize_begin_def Let_def)
  next
    case nf: False
    show ?thesis
    proof (cases "fs_existsSync w (path_resolve w (the (GOOGLE_APPLICATION_CREDENTIALS (env w))))")
      case False
      with nr nf show ?thesis
        by (simp add: ensureVertexAI_def initialize_def calls_def step_single initialize_begin_def Let_def)
    next
      case True
      with nr nf show ?thesis
        by (simp add: ensureVertexAI_def initialize_def testConnection_def getModel_def
            calls_def step_single initialize_begin_def Let_def)
    qed
  qed
qed

text \<open>Counting the calls that have begun, and the invariant of a run.\<close>

lemma started_update:
  "i < length ts \<Longrightarrow>
     started (ts[i := t]) + (if isStart (ts ! i) then 0 else 1)
       = started ts + (if isStart t then 0 else 1)"
proof (induction ts arbitrary: i)
  case Nil
  then show ?case by simp
next
  case (Cons a ts)
  show ?case
  proof (cases i)
    case 0
    then show ?thesis by (simp add: started_def)
  next
    case (Suc j)
    with Cons.prems have "j < length ts" by simp
    from Cons.IH[OF this] Suc show ?thesis by (auto simp: started_def split: if_splits)
  qed
qed

lemma started_replicate: "started (replicate n Start) = 0"
  by (induction n) (auto simp: started_def)

lemma finished_started: "list_all isFinished ts \<Longrightarrow> started ts = length ts"
proof (induction ts)
  case Nil
  then show ?case by (simp add: started_def)
next
  case (Cons t ts)
  then show ?case by (cases t) (auto simp: started_def)
qed

lemma step_task_Start:
  assumes "\<not> isInitialized s" "\<not> falsy (GOOGLE_APPLICATION_CREDENTIALS (env w))"
    and "step_task w Start s = (t, s', fx)"
  shows "\<not> isInitialized s' \<and> cannotSetFlag t \<and> \<not> isStart t \<and> credentialChecks fx = 1"
  using assms
  by (auto simp: initialize_begin_def getModel_def Let_def credentialChecks_def split: if_splits)

lemma step_task_other:
  assumes "\<not> isInitialized s" "cannotSetFlag t0" "\<not> isStart t0"
    and "step_task w t0 s = (t, s', fx)"
  shows "\<not> isInitialized s' \<and> cannotSetFlag t \<and> \<not> isStart t \<and> fx = []"
  using assms
  by (cases "(w, t0, s)" rule: step_task.cases) auto

lemma length_tasks_step: "length (tasks (step w i sys)) = length (tasks sys)"
  by (auto simp: step_def split: prod.splits)

lemma length_tasks_run: "length (tasks (run w sched sys)) = length (tasks sys)"
  by (induction sched arbitrary: sys) (simp_all add: length_tasks_step)

lemma no_flag_step:
  assumes c: "\<not> falsy (GOOGLE_APPLICATION_CREDENTIALS (env w))" and inv: "no_flag sys"
  shows "no_flag (step w i sys)"
proof (cases "i < length (tasks sys)")
  case False
  then show ?thesis using inv by (simp add: step_def)
next
  case True
  obtain t s' fx where st: "step_task w (tasks sys ! i) (shared sys) = (t, s', fx)"
    by (cases "step_task w (tasks sys ! i) (shared sys)") auto
  from True st have sys': "step w i sys =
      \<lparr> shared = s', tasks = (tasks sys)[i := t], effects = effects sys @ fx \<rparr>"
    by (simp add: step_def)
  from inv have ni: "\<not> isInitialized (shared sys)" and all: "list_all cannotSetFlag (tasks sys)"
    and cnt: "credentialChecks (effects sys) = started (tasks sys)"
    by (simp_all add: no_flag_def)
  from all True have ci: "cannotSetFlag (tasks sys ! i)" by (simp add: list_all_length)
  have upd: "started ((tasks sys)[i := t]) + (if isStart (tasks sys ! i) then 0 else 1)
       = started (tasks sys) + (if isStart t then 0 else 1)"
    using started_update[OF True] .
  have app: "credentialChecks (effects sys @ fx) = credentialChecks (effects sys) + credentialChecks fx"
    by (simp add: credentialChecks_def)
  show ?thesis
  proof (cases "isStart (tasks sys ! i)")
    case True
    then have "tasks sys ! i = Start" by (cases "tasks sys ! i") auto
    with st have "step_task w Start (shared sys) = (t, s', fx)" by simp
    from step_task_Start[OF ni c this]
    have r: "\<not> isInitialized s'" "cannotSetFlag t" "\<not> isStart t" "credentialChecks fx = 1" by auto
    have "list_all cannotSetFlag ((tasks sys)[i := t])"
      using all r(2) \<open>i < length (tasks sys)\<close> by (simp add: list_all_length nth_list_update)
    moreover have "credentialChecks (effects sys @ fx) = started ((tasks sys)[i := t])"
      using upd app cnt r True by simp
    ultimately show ?thesis using r(1) by (simp add: sys' no_flag_def)
  next
    case False
    from step_task_other[OF ni ci False st]
    have r: "\<not> isInitialized s'" "cannotSetFlag t" "\<not> isStart t" "fx = []" by auto
    have "list_all cannotSetFlag ((tasks sys)[i := t])"
      using all r(2) \<open>i < length (tasks sys)\<close> by (simp add: list_all_length nth_list_update)
    moreover have "credentialChecks (effects sys @ fx) = started ((tasks sys)[i := t])"
      using upd cnt r False by simp
    ultimately show ?thesis using r(1) by (simp add: sys' no_flag_def)
  qed
qed

lemma no_flag_run:
  assumes c: "\<not> falsy (GOOGLE_APPLICATION_CREDENTIALS (env w))"
  shows "no_flag sys \<Longrightarrow> no_flag (run w sched sys)"
  by (induction sched arbitrary: sys) (simp_all add: no_flag_step[OF c])

lemma no_flag_calls: "\<not> isInitialized s \<Longrightarrow> no_flag (calls s n)"
  by (simp add: no_flag_def calls_def started_replicate credentialChecks_def list_all_length)

text \<open>
  C1 (as the code has it). There is no single flight: the object has no state for an
  attempt in progress, and a call that finds the flag unset starts \<open>initialize\<close>
  itself. With the credential variable set, for any number of calls started on an object
  that is not Ready and any order of their pieces, there are as many checks of the
  credential file as calls that have begun; when all \<open>n\<close> calls have finished there
  have been \<open>n\<close>.
\<close>

theorem every_caller_runs_its_own_handshake:
  assumes "\<not> isInitialized s" and "\<not> falsy (GOOGLE_APPLICATION_CREDENTIALS (env w))"
  shows "credentialChecks (effects (run w sched (calls s n))) = started (tasks (run w sched (calls s n)))
       \<and> (list_all isFinished (tasks (run w sched (calls s n)))
            \<longrightarrow> credentialChecks (effects (run w sched (calls s n))) = n)"
proof -
  have inv: "no_flag (run w sched (calls s n))"
    using no_flag_run[OF assms(2) no_flag_calls[OF assms(1)]] .
  then have cnt: "credentialChecks (effects (run w sched (calls s n))) = started (tasks (run w sched (calls s n)))"
    by (simp add: no_flag_def)
  have len: "length (tasks (run w sched (calls s n))) = n"
    by (simp add: length_tasks_run calls_def)
  show ?thesis using cnt len finished_started by fastforce
qed



theorem every_caller_runs_its_own_handshake_witness:
  "\<not> isInitialized (constructor world_ok)
   \<and> \<not> falsy (GOOGLE_APPLICATION_CREDENTIALS (env world_ok))
   \<and> list_all isFinished (tasks (run world_ok [0, 1, 2, 0, 1, 2, 0, 1, 2] (calls (constructor world_ok) 3)))
   \<and> credentialChecks (effects (run world_ok [0, 1, 2, 0, 1, 2, 0, 1, 2] (calls (constructor world_ok) 3))) = 3"
proof -
  have a: "\<not> isInitialized (constructor world_ok)" by (simp add: sample_defs)
  have b: "\<not> falsy (GOOGLE_APPLICATION_CREDENTIALS (env world_ok))" by (simp add: sample_defs falsy_def)
  have c: "list_all isFinished (tasks (run world_ok [0, 1, 2, 0, 1, 2, 0, 1, 2] (calls (constructor world_ok) 3)))"
    by code_simp
  show ?thesis
    using a b c every_caller_runs_its_own_handshake[OF a b, of "[0, 1, 2, 0, 1, 2, 0, 1, 2]" 3]
    by simp
qed

text \<open>
  C1 (as the claim states it) fails: two calls are issued on the fresh object, the second
  while the first is waiting and the object is still uninitialized. Both run to the end,
  and the credential file has been checked twice and two clients have been built.
\<close>

theorem two_callers_two_handshakes:
  "uninitialized (shared (calls (constructor world_ok) 2))
   \<and> uninitialized (shared (step world_ok 0 (calls (constructor world_ok) 2)))
   \<and> list_all isFinished (tasks (run world_ok [0, 1, 0, 1, 0, 1] (calls (constructor world_ok) 2)))
   \<and> credentialChecks (effects (run world_ok [0, 1, 0, 1, 0, 1] (calls (constructor world_ok) 2))) = 2
   \<and> clientConstructions (effects (run world_ok [0, 1, 0, 1, 0, 1] (calls (constructor world_ok) 2))) = 2"
  by code_simp


end
